theory Spec2Isabelle
  imports Main "HOL-Library.Sublist"
begin

section \<open>JavaScript values and errors\<close>

text \<open>
  The web tray app (\<^verbatim>\<open>apps/web\<close>) talks to the packaged command-line backend through
  JSON. A value is what \<^verbatim>\<open>JSON.parse\<close> can return, plus \<^verbatim>\<open>undefined\<close> for a property
  that is absent. Numbers are doubles in JavaScript; the code modelled here only tests
  them for zero (truthiness) and copies them (exit codes), so they are integers here.
  An object is the list of its properties; \<^verbatim>\<open>JSON.parse\<close> yields distinct keys.
\<close>

datatype jsval =
    JUndefined
  | JNull
  | JBool bool
  | JNum int
  | JStr string
  | JArr "jsval list"
  | JObj "(string \<times> jsval) list"

text \<open>
  A thrown value. The handlers read \<^verbatim>\<open>error.code\<close>, \<^verbatim>\<open>error.stdout\<close>,
  \<^verbatim>\<open>error.stderr\<close> and \<^verbatim>\<open>error.message\<close>; \<^verbatim>\<open>String(error)\<close> also reads its name.
  A property the error does not have is \<^term>\<open>JUndefined\<close>.
\<close>

record js_error =
  err_name :: string
  err_message :: string
  err_code :: jsval
  err_stdout :: jsval
  err_stderr :: jsval

definition TypeError :: "string \<Rightarrow> js_error" where
  "TypeError m =
     \<lparr>err_name = ''TypeError'', err_message = m, err_code = JUndefined,
      err_stdout = JUndefined, err_stderr = JUndefined\<rparr>"

text \<open>JavaScript truthiness, and \<^verbatim>\<open>a || b\<close>.\<close>

fun truthy :: "jsval \<Rightarrow> bool" where
  "truthy JUndefined = False"
| "truthy JNull = False"
| "truthy (JBool b) = b"
| "truthy (JNum n) = (n \<noteq> 0)"
| "truthy (JStr s) = (s \<noteq> [])"
| "truthy (JArr xs) = True"
| "truthy (JObj kvs) = True"

definition or_js :: "jsval \<Rightarrow> jsval \<Rightarrow> jsval" where
  "or_js a b = (if truthy a then a else b)"

text \<open>
  Reading the property \<^verbatim>\<open>args\<close> of a parsed body: \<^verbatim>\<open>null.args\<close> throws, an object
  gives the property or \<^verbatim>\<open>undefined\<close>, and a boolean, number, string or array has no
  property of that name.
\<close>

fun get_args :: "jsval \<Rightarrow> js_error + jsval" where
  "get_args JUndefined = Inl (TypeError ''Cannot read properties of undefined (reading 'args')'')"
| "get_args JNull = Inl (TypeError ''Cannot read properties of null (reading 'args')'')"
| "get_args (JObj kvs) = Inr (case map_of kvs ''args'' of None \<Rightarrow> JUndefined | Some v \<Rightarrow> v)"
| "get_args v = Inr JUndefined"

text \<open>
  What is left of a value after \<^verbatim>\<open>JSON.stringify\<close> on one side and \<^verbatim>\<open>JSON.parse\<close> on the
  other: a property whose value is \<^verbatim>\<open>undefined\<close> is dropped, an \<^verbatim>\<open>undefined\<close> array
  element becomes \<^verbatim>\<open>null\<close>.
\<close>

fun wire :: "jsval \<Rightarrow> jsval" where
  "wire (JArr xs) = JArr (map (\<lambda>x. if x = JUndefined then JNull else wire x) xs)"
| "wire (JObj kvs) =
     JObj (map (\<lambda>(k, v). (k, wire v)) (filter (\<lambda>(k, v). v \<noteq> JUndefined) kvs))"
| "wire v = v"

section \<open>The API bridge route: \<^verbatim>\<open>apps/web/app/api/cli/route.ts\<close>\<close>

text \<open>
  The handler's surroundings: the server's working directory and \<^verbatim>\<open>execFile\<close> of
  \<^verbatim>\<open>child_process\<close> (promisified), which either resolves with the child's standard output
  and error or rejects with an error carrying \<^verbatim>\<open>code\<close>, \<^verbatim>\<open>stdout\<close> and \<^verbatim>\<open>stderr\<close>.
\<close>

record server_env =
  process_cwd :: string
  execFile :: "string \<Rightarrow> jsval list \<Rightarrow> js_error + (string \<times> string)"

record response =
  res_status :: nat
  res_body :: jsval

type_synonym exec_call = "string \<times> jsval list"

definition allowedCommands :: "string list" where
  "allowedCommands =
     [''status'', ''list'', ''switch'', ''login'', ''save'',
      ''device-login-init'', ''device-login-poll'', ''add'']"

definition first_arg_allowed :: "jsval list \<Rightarrow> bool" where
  "first_arg_allowed a = (case a of JStr c # _ \<Rightarrow> c \<in> set allowedCommands | _ \<Rightarrow> False)"

text \<open>
  \<^verbatim>\<open>path.resolve(process.cwd(), 'src-tauri/binaries/codex-backend-aarch64-apple-darwin')\<close>
  on POSIX: the working directory is absolute and normalised, the second segment is
  relative and has no dot segments.
\<close>

definition binaryPath :: "server_env \<Rightarrow> string" where
  "binaryPath env =
     (if process_cwd env = ''/'' then ''/'' else process_cwd env @ ''/'')
       @ ''src-tauri/binaries/codex-backend-aarch64-apple-darwin''"

text \<open>
  The log line of the handler renders the arguments with \<^verbatim>\<open>args.join(' ')\<close>.
  \<^verbatim>\<open>Array.prototype.join\<close> turns an \<^verbatim>\<open>undefined\<close> or \<^verbatim>\<open>null\<close> element into the empty
  string and applies \<^verbatim>\<open>ToString\<close> to any other. For an array element that is itself an
  array this is \<^verbatim>\<open>join\<close> again. For an object it is \<^verbatim>\<open>OrdinaryToPrimitive\<close>: the
  object's \<^verbatim>\<open>toString\<close> is called if it is callable, else its \<^verbatim>\<open>valueOf\<close>, and a
  \<^verbatim>\<open>TypeError\<close> is thrown when neither gives a primitive. A parsed object inherits a
  callable \<^verbatim>\<open>toString\<close> unless it has a property of that name itself; such a property
  holds a JSON value, which is not callable, and the inherited \<^verbatim>\<open>valueOf\<close> returns the
  object. So \<^verbatim>\<open>[{"toString": 1}].join(' ')\<close> throws. The function says whether
  \<^verbatim>\<open>ToString\<close> of an array element throws.
\<close>

fun unprintable :: "jsval \<Rightarrow> bool" where
  "unprintable (JObj kvs) = (map_of kvs ''toString'' \<noteq> None)"
| "unprintable (JArr xs) = list_ex unprintable xs"
| "unprintable v = False"

text \<open>
  The \<^verbatim>\<open>try\<close> block of \<^verbatim>\<open>POST\<close>. Its argument is what \<^verbatim>\<open>await req.json()\<close> gives: the
  parsed body, or the error it throws. The result is the block's outcome with the list of
  \<^verbatim>\<open>execFile\<close> calls made. \<^verbatim>\<open>allowedCommands\<close> is declared between the two steps and
  read nowhere. The log line comes before \<^verbatim>\<open>execFile\<close>: \<^verbatim>\<open>args.join\<close> is not a function
  unless \<^verbatim>\<open>args\<close> is an array, and throws on an element that has no string form. The
  text written to the console is not modelled.
\<close>

definition POST_try ::
  "server_env \<Rightarrow> js_error + jsval \<Rightarrow> (js_error + (string \<times> string)) \<times> exec_call list" where
  "POST_try env parsed =
     (case parsed of
        Inl e \<Rightarrow> (Inl e, [])
      | Inr body \<Rightarrow>
          (case get_args body of
             Inl e \<Rightarrow> (Inl e, [])
           | Inr a0 \<Rightarrow>
               (case or_js a0 (JArr []) of
                  JArr args \<Rightarrow>
                    (if list_ex unprintable args
                     then (Inl (TypeError ''Cannot convert object to primitive value''), [])
                     else (execFile env (binaryPath env) args, [(binaryPath env, args)]))
                | _ \<Rightarrow> (Inl (TypeError ''args.join is not a function''), []))))"

text \<open>
  The two \<^verbatim>\<open>NextResponse.json\<close> replies: the one after \<^verbatim>\<open>execFile\<close> resolved, and the one
  of the \<^verbatim>\<open>catch\<close> block. The body is the object as the client parses it.
\<close>

definition reply :: "js_error + (string \<times> string) \<Rightarrow> response" where
  "reply r =
     (case r of
        Inr (out, err) \<Rightarrow>
          \<lparr>res_status = 200,
           res_body = wire (JObj [(''code'', JNum 0), (''stdout'', JStr out), (''stderr'', JStr err)])\<rparr>
      | Inl e \<Rightarrow>
          \<lparr>res_status = 500,
           res_body = wire (JObj [(''code'', or_js (err_code e) (JNum 1)),
                                  (''stdout'', or_js (err_stdout e) (JStr '''')),
                                  (''stderr'', or_js (err_stderr e) (JStr (err_message e)))])\<rparr>)"

definition POST :: "server_env \<Rightarrow> js_error + jsval \<Rightarrow> response \<times> exec_call list" where
  "POST env parsed = (case POST_try env parsed of (r, calls) \<Rightarrow> (reply r, calls))"

section \<open>The tray app's bridge client: \<^verbatim>\<open>invokeCLI\<close> in \<^verbatim>\<open>apps/web/app/page.tsx\<close>\<close>

text \<open>
  \<^verbatim>\<open>String(e)\<close> for an error object, as \<^verbatim>\<open>Error.prototype.toString\<close> builds it.
\<close>

definition String_error :: "js_error \<Rightarrow> string" where
  "String_error e =
     (if err_name e = [] then err_message e
      else if err_message e = [] then err_name e
      else err_name e @ '': '' @ err_message e)"

definition SyntaxError :: "string \<Rightarrow> js_error" where
  "SyntaxError m =
     \<lparr>err_name = ''SyntaxError'', err_message = m, err_code = JUndefined,
      err_stdout = JUndefined, err_stderr = JUndefined\<rparr>"

text \<open>
  What \<^verbatim>\<open>fetch\<close> is called with and what it resolves to. The request body is the value
  that the text \<^verbatim>\<open>JSON.stringify({ args })\<close> encodes; of the response the client uses only
  \<^verbatim>\<open>res.json()\<close>, which gives the parsed body or throws.
\<close>

record fetch_request =
  req_url :: string
  req_method :: string
  req_headers :: "(string \<times> string) list"
  req_body :: jsval

record fetch_response =
  fr_status :: nat
  fr_json :: "js_error + jsval"

text \<open>
  The client's surroundings: whether \<^verbatim>\<open>window.__TAURI__\<close> is there, the Tauri sidecar
  (\<^verbatim>\<open>Command.sidecar(name, args).execute()\<close>, which may reject), and \<^verbatim>\<open>fetch\<close>.
\<close>

record client_env =
  tauri :: bool
  sidecar :: "string \<Rightarrow> string list \<Rightarrow> js_error + jsval"
  fetch :: "fetch_request \<Rightarrow> js_error + fetch_response"

definition bridge_request :: "string list \<Rightarrow> fetch_request" where
  "bridge_request args =
     \<lparr>req_url = ''/api/cli'', req_method = ''POST'',
      req_headers = [(''Content-Type'', ''application/json'')],
      req_body = JObj [(''args'', JArr (map JStr args))]\<rparr>"

text \<open>The object the \<^verbatim>\<open>catch\<close> block returns.\<close>

definition bridge_error :: "js_error \<Rightarrow> jsval" where
  "bridge_error e =
     JObj [(''code'', JNum 1), (''stdout'', JStr []), (''stderr'', JStr (String_error e))]"

text \<open>
  \<^verbatim>\<open>invokeCLI\<close>: \<^term>\<open>Inl\<close> is an exception that leaves the function, \<^term>\<open>Inr\<close> the
  value it returns. The sidecar call stands outside the \<^verbatim>\<open>try\<close>; \<^verbatim>\<open>fetch\<close> and
  \<^verbatim>\<open>res.json()\<close> stand inside it.
\<close>

definition invokeCLI :: "client_env \<Rightarrow> string list \<Rightarrow> js_error + jsval" where
  "invokeCLI env args =
     (if tauri env then sidecar env ''codex-backend'' args
      else
        (case fetch env (bridge_request args) of
           Inl e \<Rightarrow> Inr (bridge_error e)
         | Inr res \<Rightarrow>
             (case fr_json res of
                Inl e \<Rightarrow> Inr (bridge_error e)
              | Inr v \<Rightarrow> Inr v)))"

text \<open>An object that has the properties \<^verbatim>\<open>code\<close>, \<^verbatim>\<open>stdout\<close> and \<^verbatim>\<open>stderr\<close>.\<close>

definition has_cli_fields :: "jsval \<Rightarrow> bool" where
  "has_cli_fields v =
     (case v of
        JObj kvs \<Rightarrow>
          map_of kvs ''code'' \<noteq> None \<and> map_of kvs ''stdout'' \<noteq> None
            \<and> map_of kvs ''stderr'' \<noteq> None
      | _ \<Rightarrow> False)"

section \<open>Identity context of the command-line core\<close>

text \<open>
  Modelled from the spec: the identity context and its \<^verbatim>\<open>resolve\<close> belong to the Python
  core (\<^verbatim>\<open>src/codex_account_manager\<close>, built into the \<^verbatim>\<open>codex-backend\<close> binary), which is
  not among the source files; only its callers in \<^verbatim>\<open>apps/web\<close> are. The context has three
  layers (spec, section 3): a session override, an environment variable naming a slug and
  read afresh at each resolution; a table of directory links, keyed by canonical absolute
  path; and one persisted globally active slug. A directory is the list of its path
  components below the filesystem root, so the root is the empty list.
\<close>

type_synonym slug = string

type_synonym dir = "string list"

record identity_context =
  session_override :: "slug option"
  links :: "dir \<rightharpoonup> slug"
  global_active :: "slug option"

definition parent :: "dir \<Rightarrow> dir" where
  "parent d = butlast d"

text \<open>
  Modelled from the spec: the lookup in the link table (section 4.3), which is not among
  the source files. Only exact recorded paths match; the walk starts at the working
  directory and goes up parent by parent until a match or the root is reached, and the
  first match wins.
\<close>

function closest_link :: "(dir \<rightharpoonup> slug) \<Rightarrow> dir \<Rightarrow> slug option" where
  "closest_link tbl d =
     (case tbl d of
        Some s \<Rightarrow> Some s
      | None \<Rightarrow> (if d = [] then None else closest_link tbl (parent d)))"
  by pat_completeness auto
termination
  by (relation "measure (\<lambda>(tbl, d). length d)") (auto simp: parent_def)

declare closest_link.simps [simp del]

text \<open>
  Modelled from the spec: \<^verbatim>\<open>resolve(cwd) -> slug | none\<close> (section 4.3), which is not
  among the source files: the session override when present, else the directory link,
  else the globally active slug, else none.
\<close>

definition resolve :: "identity_context \<Rightarrow> dir \<Rightarrow> slug option" where
  "resolve ctx cwd =
     (case session_override ctx of
        Some s \<Rightarrow> Some s
      | None \<Rightarrow>
          (case closest_link (links ctx) cwd of
             Some d \<Rightarrow> Some d
           | None \<Rightarrow> global_active ctx))"

text \<open>
  What the claim calls the closest recorded directory link of a working directory: a
  recorded path that is the working directory or one of its ancestors, with no recorded
  path strictly between it and the working directory. This is the statement the walk is
  compared with; it does not mention the walk.
\<close>

definition closest_linked :: "(dir \<rightharpoonup> slug) \<Rightarrow> dir \<Rightarrow> dir \<Rightarrow> bool" where
  "closest_linked tbl cwd p \<longleftrightarrow>
     prefix p cwd \<and> tbl p \<noteq> None
       \<and> (\<forall>q. prefix q cwd \<and> length p < length q \<longrightarrow> tbl q = None)"

section \<open>Environments of the examples\<close>

text \<open>
  A server whose backend prints an empty JSON object and exits with code 0, and a server
  whose backend exits with code 2. For the tray page: a \<^verbatim>\<open>fetch\<close> that settles in the
  same way whatever it is called with, and the page opened in a browser (no Tauri, so no
  sidecar) with a given \<^verbatim>\<open>fetch\<close>.
\<close>

definition backend_ok :: server_env where
  "backend_ok = \<lparr>process_cwd = ''/app'', execFile = (\<lambda>p a. Inr (''{}'', []))\<rparr>"

definition backend_exit2 :: server_env where
  "backend_exit2 =
     \<lparr>process_cwd = ''/app'',
      execFile = (\<lambda>p a. Inl \<lparr>err_name = ''Error'', err_message = ''Command failed'',
                               err_code = JNum 2, err_stdout = JStr [],
                               err_stderr = JStr ''not found''\<rparr>)\<rparr>"

definition fetch_settles ::
  "js_error + fetch_response \<Rightarrow> fetch_request \<Rightarrow> js_error + fetch_response" where
  "fetch_settles r rq = r"

definition in_browser ::
  "(fetch_request \<Rightarrow> js_error + fetch_response) \<Rightarrow> client_env" where
  "in_browser f =
     \<lparr>tauri = False, sidecar = (\<lambda>n a. Inl (TypeError ''sidecar is not available'')),
      fetch = f\<rparr>"

section \<open>The bridge passes its arguments through\<close>

lemma or_js_array [simp]: "or_js (JArr a) d = JArr a"
  by (simp add: or_js_def)

lemma POST_try_array:
  assumes "get_args body = Inr (JArr args)"
  shows "POST_try env (Inr body) =
           (if list_ex unprintable args
            then (Inl (TypeError ''Cannot convert object to primitive value''), [])
            else (execFile env (binaryPath env) args, [(binaryPath env, args)]))"
  using assms by (simp add: POST_try_def)

lemma strings_printable: "\<not> list_ex unprintable (map JStr ss)"
  by (induction ss) simp_all

text \<open>
  Claim C9, as amended. Whenever the body of a POST request to \<^verbatim>\<open>/api/cli\<close> carries under
  \<^verbatim>\<open>args\<close> an array that the log line can render (no element has no string form), the
  handler calls \<^verbatim>\<open>execFile\<close> exactly once, on the backend binary with that array
  unchanged, and its reply is made from the outcome of that call alone. The statement has
  no condition on the first argument: the list \<^term>\<open>allowedCommands\<close> is not read, so a
  command outside it runs like one inside it.
\<close>

theorem POST_passes_args_unfiltered:
  assumes "get_args body = Inr (JArr args)" and "\<not> list_ex unprintable args"
  shows "POST env (Inr body) =
           (reply (execFile env (binaryPath env) args), [(binaryPath env, args)])"
  using assms by (simp add: POST_def POST_try_array)

text \<open>
  The theorem at \<^verbatim>\<open>{"args": ["limits", "show", "--json"]}\<close>, a request the tray page
  itself sends: \<^verbatim>\<open>limits\<close> is not in the list, and the backend is run with these very
  arguments.
\<close>

theorem POST_passes_args_unfiltered_witness:
  "get_args (JObj [(''args'', JArr [JStr ''limits'', JStr ''show'', JStr ''--json''])])
     = Inr (JArr [JStr ''limits'', JStr ''show'', JStr ''--json''])
   \<and> \<not> list_ex unprintable [JStr ''limits'', JStr ''show'', JStr ''--json'']
   \<and> \<not> first_arg_allowed [JStr ''limits'', JStr ''show'', JStr ''--json'']
   \<and> POST backend_ok
        (Inr (JObj [(''args'', JArr [JStr ''limits'', JStr ''show'', JStr ''--json''])]))
     = (\<lparr>res_status = 200,
         res_body = JObj [(''code'', JNum 0), (''stdout'', JStr ''{}''), (''stderr'', JStr [])]\<rparr>,
        [(''/app/src-tauri/binaries/codex-backend-aarch64-apple-darwin'',
          [JStr ''limits'', JStr ''show'', JStr ''--json''])])"
  using POST_passes_args_unfiltered
    [of "JObj [(''args'', JArr [JStr ''limits'', JStr ''show'', JStr ''--json''])]"
        "[JStr ''limits'', JStr ''show'', JStr ''--json'']" backend_ok]
  by (simp add: first_arg_allowed_def allowedCommands_def reply_def binaryPath_def
      backend_ok_def)

text \<open>
  The claim as first stated, for every array under \<^verbatim>\<open>args\<close>, fails at
  \<^verbatim>\<open>{"args": [{"toString": 1}]}\<close>: the body carries an array, the log line throws on it,
  the handler answers with status 500 and \<^verbatim>\<open>execFile\<close> is not called, although this
  backend would have answered.
\<close>

theorem POST_unprintable_args_counterexample:
  "get_args (JObj [(''args'', JArr [JObj [(''toString'', JNum 1)]])])
     = Inr (JArr [JObj [(''toString'', JNum 1)]])
   \<and> POST backend_ok (Inr (JObj [(''args'', JArr [JObj [(''toString'', JNum 1)]])]))
     = (\<lparr>res_status = 500,
         res_body = JObj [(''code'', JNum 1), (''stdout'', JStr []),
                          (''stderr'', JStr ''Cannot convert object to primitive value'')]\<rparr>,
        [])"
  by (simp add: POST_def POST_try_def reply_def or_js_def TypeError_def)

text \<open>
  An array of strings, which is what the tray page sends and what a command line can
  carry, is always rendered, so it always reaches \<^verbatim>\<open>execFile\<close>.
\<close>

lemma POST_passes_string_args:
  assumes "get_args body = Inr (JArr (map JStr ss))"
  shows "POST env (Inr body) =
           (reply (execFile env (binaryPath env) (map JStr ss)),
            [(binaryPath env, map JStr ss)])"
  using assms by (simp add: POST_def POST_try_array strings_printable)

section \<open>The bridge client never throws\<close>

lemma truthy_defined: "truthy a \<Longrightarrow> a \<noteq> JUndefined"
  by (cases a) simp_all

lemma or_js_defined: "d \<noteq> JUndefined \<Longrightarrow> or_js a d \<noteq> JUndefined"
  by (auto simp: or_js_def dest: truthy_defined)

lemma reply_has_cli_fields: "has_cli_fields (res_body (reply r))"
proof (cases r)
  case (Inl e)
  have "or_js (err_code e) (JNum 1) \<noteq> JUndefined"
    and "or_js (err_stdout e) (JStr []) \<noteq> JUndefined"
    and "or_js (err_stderr e) (JStr (err_message e)) \<noteq> JUndefined"
    by (simp_all add: or_js_defined)
  with Inl show ?thesis
    by (simp add: reply_def has_cli_fields_def)
next
  case (Inr p)
  then show ?thesis
    by (cases p) (simp add: reply_def has_cli_fields_def)
qed

lemma bridge_error_has_cli_fields: "has_cli_fields (bridge_error e)"
  by (simp add: bridge_error_def has_cli_fields_def)

lemma invokeCLI_browser_cases:
  assumes "\<not> tauri env"
  shows "invokeCLI env args =
           (case fetch env (bridge_request args) of
              Inl e \<Rightarrow> Inr (bridge_error e)
            | Inr res \<Rightarrow> (case fr_json res of Inl e \<Rightarrow> Inr (bridge_error e) | Inr v \<Rightarrow> Inr v))"
  using assms by (simp add: invokeCLI_def)

lemma POST_reply_has_cli_fields: "has_cli_fields (res_body (fst (POST senv parsed)))"
  by (cases "POST_try senv parsed") (simp add: POST_def reply_has_cli_fields)

text \<open>
  Claim C10, as amended. Outside Tauri, \<^verbatim>\<open>invokeCLI\<close> returns a value for every argument
  list and every behaviour of \<^verbatim>\<open>fetch\<close>: no exception leaves it. When \<^verbatim>\<open>fetch\<close> rejects
  with an error, or \<^verbatim>\<open>res.json()\<close> throws one, the value is
  \<^verbatim>\<open>{code: 1, stdout: "", stderr: String(error)}\<close>, an object with \<^verbatim>\<open>code\<close>,
  \<^verbatim>\<open>stdout\<close> and \<^verbatim>\<open>stderr\<close>. Otherwise the value is the parsed reply, unchanged and
  unchecked; it is an object with \<^verbatim>\<open>code\<close>, \<^verbatim>\<open>stdout\<close> and \<^verbatim>\<open>stderr\<close> whenever the
  reply is one that the route handler \<^term>\<open>POST\<close> gives, to any request and with any
  outcome of the backend.
\<close>

theorem invokeCLI_bridge_never_throws:
  assumes "\<not> tauri env"
  shows "(\<exists>v. invokeCLI env args = Inr v)
       \<and> (\<forall>e. fetch env (bridge_request args) = Inl e \<longrightarrow>
               invokeCLI env args = Inr (bridge_error e) \<and> has_cli_fields (bridge_error e))
       \<and> (\<forall>res e. fetch env (bridge_request args) = Inr res \<and> fr_json res = Inl e \<longrightarrow>
               invokeCLI env args = Inr (bridge_error e) \<and> has_cli_fields (bridge_error e))
       \<and> (\<forall>res v. fetch env (bridge_request args) = Inr res \<and> fr_json res = Inr v \<longrightarrow>
               invokeCLI env args = Inr v)
       \<and> (\<forall>res senv parsed.
               fetch env (bridge_request args) = Inr res
                 \<and> fr_json res = Inr (res_body (fst (POST senv parsed))) \<longrightarrow>
               invokeCLI env args = Inr (res_body (fst (POST senv parsed)))
                 \<and> has_cli_fields (res_body (fst (POST senv parsed))))"
proof (intro conjI allI impI)
  show "\<exists>v. invokeCLI env args = Inr v"
    using assms by (auto simp: invokeCLI_browser_cases split: sum.splits)
next
  fix e assume "fetch env (bridge_request args) = Inl e"
  with assms show "invokeCLI env args = Inr (bridge_error e)"
    by (simp add: invokeCLI_browser_cases)
next
  fix e show "has_cli_fields (bridge_error e)"
    by (rule bridge_error_has_cli_fields)
next
  fix res e assume "fetch env (bridge_request args) = Inr res \<and> fr_json res = Inl e"
  with assms show "invokeCLI env args = Inr (bridge_error e)"
    by (simp add: invokeCLI_browser_cases)
next
  fix e show "has_cli_fields (bridge_error e)"
    by (rule bridge_error_has_cli_fields)
next
  fix res v assume "fetch env (bridge_request args) = Inr res \<and> fr_json res = Inr v"
  with assms show "invokeCLI env args = Inr v"
    by (simp add: invokeCLI_browser_cases)
next
  fix res senv parsed
  assume "fetch env (bridge_request args) = Inr res
            \<and> fr_json res = Inr (res_body (fst (POST senv parsed)))"
  with assms show "invokeCLI env args = Inr (res_body (fst (POST senv parsed)))"
    by (simp add: invokeCLI_browser_cases)
next
  fix senv parsed show "has_cli_fields (res_body (fst (POST senv parsed)))"
    by (rule POST_reply_has_cli_fields)
qed

text \<open>
  The theorem at three runs of \<^verbatim>\<open>invokeCLI(["switch", "work"])\<close> in a browser:
  \<^verbatim>\<open>fetch\<close> rejects; the reply is a page that is not JSON; the reply is the one the route
  handler gives to this request when the backend exits with code 2.
\<close>

theorem invokeCLI_bridge_never_throws_witness:
  "\<not> tauri (in_browser (fetch_settles (Inl (TypeError ''Failed to fetch''))))
   \<and> fetch (in_browser (fetch_settles (Inl (TypeError ''Failed to fetch''))))
         (bridge_request [''switch'', ''work''])
     = Inl (TypeError ''Failed to fetch'')
   \<and> invokeCLI (in_browser (fetch_settles (Inl (TypeError ''Failed to fetch''))))
         [''switch'', ''work'']
     = Inr (JObj [(''code'', JNum 1), (''stdout'', JStr []),
                  (''stderr'', JStr ''TypeError: Failed to fetch'')])
   \<and> invokeCLI
         (in_browser (fetch_settles
            (Inr \<lparr>fr_status = 502, fr_json = Inl (SyntaxError ''Unexpected token <'')\<rparr>)))
         [''switch'', ''work'']
     = Inr (JObj [(''code'', JNum 1), (''stdout'', JStr []),
                  (''stderr'', JStr ''SyntaxError: Unexpected token <'')])
   \<and> res_body (fst (POST backend_exit2 (Inr (req_body (bridge_request [''switch'', ''work''])))))
     = JObj [(''code'', JNum 2), (''stdout'', JStr []), (''stderr'', JStr ''not found'')]
   \<and> invokeCLI
         (in_browser (fetch_settles
            (Inr \<lparr>fr_status = 500,
                  fr_json = Inr (res_body (fst (POST backend_exit2
                    (Inr (req_body (bridge_request [''switch'', ''work''])))))) \<rparr>)))
         [''switch'', ''work'']
     = Inr (JObj [(''code'', JNum 2), (''stdout'', JStr []), (''stderr'', JStr ''not found'')])
   \<and> has_cli_fields
        (JObj [(''code'', JNum 2), (''stdout'', JStr []), (''stderr'', JStr ''not found'')])"
  using invokeCLI_bridge_never_throws
      [of "in_browser (fetch_settles (Inl (TypeError ''Failed to fetch'')))"
          "[''switch'', ''work'']"]
    invokeCLI_bridge_never_throws
      [of "in_browser (fetch_settles
             (Inr \<lparr>fr_status = 502, fr_json = Inl (SyntaxError ''Unexpected token <'')\<rparr>))"
          "[''switch'', ''work'']"]
    invokeCLI_bridge_never_throws
      [of "in_browser (fetch_settles
             (Inr \<lparr>fr_status = 500,
                   fr_json = Inr (res_body (fst (POST backend_exit2
                     (Inr (req_body (bridge_request [''switch'', ''work''])))))) \<rparr>))"
          "[''switch'', ''work'']"]
  by (simp add: in_browser_def fetch_settles_def backend_exit2_def invokeCLI_def
      bridge_request_def bridge_error_def String_error_def TypeError_def SyntaxError_def
      POST_def POST_try_def reply_def or_js_def has_cli_fields_def)

text \<open>
  The claim as first stated, that the value always is an object with \<^verbatim>\<open>code\<close>,
  \<^verbatim>\<open>stdout\<close> and \<^verbatim>\<open>stderr\<close>, fails when \<^verbatim>\<open>fetch\<close> resolves with a reply whose body is
  the JSON text \<^verbatim>\<open>null\<close>: \<^verbatim>\<open>res.json()\<close> gives \<^verbatim>\<open>null\<close> and \<^verbatim>\<open>invokeCLI\<close> returns it.
\<close>

theorem invokeCLI_null_reply_counterexample:
  "\<not> tauri (in_browser (fetch_settles (Inr \<lparr>fr_status = 200, fr_json = Inr JNull\<rparr>)))
   \<and> invokeCLI (in_browser (fetch_settles (Inr \<lparr>fr_status = 200, fr_json = Inr JNull\<rparr>)))
         [''switch'', ''work'']
     = Inr JNull
   \<and> \<not> has_cli_fields JNull"
  by (simp add: in_browser_def fetch_settles_def invokeCLI_def has_cli_fields_def)

section \<open>Precedence of the identity layers\<close>

lemma prefix_parent: "d \<noteq> [] \<Longrightarrow> prefix p d \<longleftrightarrow> p = d \<or> prefix p (parent d)"
proof -
  assume "d \<noteq> []"
  then have "d = parent d @ [last d]" by (simp add: parent_def)
  then show ?thesis by (metis prefix_snoc)
qed

lemma closest_link_None_iff:
  "closest_link tbl d = None \<longleftrightarrow> (\<forall>p. prefix p d \<longrightarrow> tbl p = None)"
proof (induction tbl d rule: closest_link.induct)
  case (1 tbl d)
  show ?case
  proof (cases "tbl d")
    case (Some s)
    then show ?thesis
      by (subst closest_link.simps) auto
  next
    case None
    show ?thesis
    proof (cases "d = []")
      case True
      with None show ?thesis by (subst closest_link.simps) simp
    next
      case False
      with None 1 have "closest_link tbl (parent d) = None \<longleftrightarrow> (\<forall>p. prefix p (parent d) \<longrightarrow> tbl p = None)"
        by simp
      moreover have "closest_link tbl d = closest_link tbl (parent d)"
        using None False by (subst closest_link.simps) simp
      ultimately show ?thesis
        using None False by (auto simp: prefix_parent)
    qed
  qed
qed

lemma closest_link_Some:
  "closest_link tbl d = Some s \<Longrightarrow> \<exists>p. closest_linked tbl d p \<and> tbl p = Some s"
proof (induction tbl d rule: closest_link.induct)
  case (1 tbl d)
  show ?case
  proof (cases "tbl d")
    case (Some s')
    with 1(2) have "s' = s" by (subst (asm) closest_link.simps) simp
    with Some have "closest_linked tbl d d \<and> tbl d = Some s"
      by (auto simp: closest_linked_def dest: prefix_length_le)
    then show ?thesis by blast
  next
    case None
    with 1(2) have ne: "d \<noteq> []" and rec: "closest_link tbl (parent d) = Some s"
      by (subst (asm) closest_link.simps, simp split: if_splits)+
    with 1(1) None obtain p where p: "closest_linked tbl (parent d) p" "tbl p = Some s"
      by blast
    with None ne have "closest_linked tbl d p"
      by (auto simp: closest_linked_def prefix_parent)
    with p show ?thesis by blast
  qed
qed

lemma closest_linked_unique:
  "closest_linked tbl d p \<Longrightarrow> closest_linked tbl d q \<Longrightarrow> p = q"
proof -
  assume p: "closest_linked tbl d p" and q: "closest_linked tbl d q"
  have "length p = length q"
  proof (rule ccontr)
    assume "length p \<noteq> length q"
    then consider "length p < length q" | "length q < length p" by linarith
    then show False
      using p q by cases (auto simp: closest_linked_def)
  qed
  moreover have "prefix p d" "prefix q d" using p q by (auto simp: closest_linked_def)
  ultimately show ?thesis
    by (metis prefix_length_prefix order_refl prefix_order.order_antisym)
qed

lemma closest_link_closest:
  assumes "closest_linked tbl d p"
  shows "closest_link tbl d = tbl p"
proof (cases "closest_link tbl d")
  case None
  with assms show ?thesis
    by (auto simp: closest_link_None_iff closest_linked_def)
next
  case (Some s)
  then obtain q where "closest_linked tbl d q" "tbl q = Some s"
    using closest_link_Some by blast
  with assms Some show ?thesis
    using closest_linked_unique by fastforce
qed

text \<open>
  Claim C2. For every working directory and every state of the identity context,
  \<^verbatim>\<open>resolve\<close> returns the session override when one is set; otherwise the slug linked
  to the closest recorded directory on the way from the working directory up to the root;
  otherwise, when no directory on that way is recorded, the globally active slug, which is
  none when none is persisted. The last part says that a closest recorded directory exists
  as soon as any directory on the way is recorded, so the cases leave nothing out and one
  layer decides.
\<close>

theorem resolve_precedence:
  "(\<forall>s. session_override ctx = Some s \<longrightarrow> resolve ctx cwd = Some s)
   \<and> (session_override ctx = None \<longrightarrow>
        (\<forall>p. closest_linked (links ctx) cwd p \<longrightarrow> resolve ctx cwd = links ctx p)
      \<and> ((\<forall>p. prefix p cwd \<longrightarrow> links ctx p = None) \<longrightarrow> resolve ctx cwd = global_active ctx)
      \<and> ((\<exists>p. prefix p cwd \<and> links ctx p \<noteq> None) \<longrightarrow> (\<exists>p. closest_linked (links ctx) cwd p)))"
proof (intro conjI allI impI)
  fix s assume "session_override ctx = Some s"
  then show "resolve ctx cwd = Some s" by (simp add: resolve_def)
next
  fix p assume "session_override ctx = None" and c: "closest_linked (links ctx) cwd p"
  moreover from c obtain s where "links ctx p = Some s" by (auto simp: closest_linked_def)
  ultimately show "resolve ctx cwd = links ctx p"
    using closest_link_closest [OF c] by (simp add: resolve_def)
next
  assume "session_override ctx = None" and "\<forall>p. prefix p cwd \<longrightarrow> links ctx p = None"
  then show "resolve ctx cwd = global_active ctx"
    by (simp add: resolve_def closest_link_None_iff [THEN iffD2])
next
  assume "\<exists>p. prefix p cwd \<and> links ctx p \<noteq> None"
  then have "closest_link (links ctx) cwd \<noteq> None"
    by (simp add: closest_link_None_iff)
  then show "\<exists>p. closest_linked (links ctx) cwd p"
    using closest_link_Some by blast
qed

text \<open>
  The example of the spec: globally active \<^verbatim>\<open>personal\<close>, a directory linked to
  \<^verbatim>\<open>work\<close> (and an ancestor linked to \<^verbatim>\<open>family\<close>), no override; then the override
  \<^verbatim>\<open>scratch\<close>; then a directory with no linked ancestor.
\<close>

theorem resolve_precedence_witness:
  "session_override \<lparr>session_override = None,
        links = [[''home'', ''me'', ''work''] \<mapsto> ''work'', [''home''] \<mapsto> ''family''],
        global_active = Some ''personal''\<rparr> = None
   \<and> closest_linked [[''home'', ''me'', ''work''] \<mapsto> ''work'', [''home''] \<mapsto> ''family'']
        [''home'', ''me'', ''work'', ''src''] [''home'', ''me'', ''work'']
   \<and> resolve \<lparr>session_override = None,
        links = [[''home'', ''me'', ''work''] \<mapsto> ''work'', [''home''] \<mapsto> ''family''],
        global_active = Some ''personal''\<rparr> [''home'', ''me'', ''work'', ''src''] = Some ''work''
   \<and> resolve \<lparr>session_override = Some ''scratch'',
        links = [[''home'', ''me'', ''work''] \<mapsto> ''work'', [''home''] \<mapsto> ''family''],
        global_active = Some ''personal''\<rparr> [''home'', ''me'', ''work'', ''src''] = Some ''scratch''
   \<and> resolve \<lparr>session_override = None,
        links = [[''home'', ''me'', ''work''] \<mapsto> ''work'', [''home''] \<mapsto> ''family''],
        global_active = Some ''personal''\<rparr> [''srv''] = Some ''personal''"
proof -
  let ?tbl = "[[''home'', ''me'', ''work''] \<mapsto> ''work'', [''home''] \<mapsto> ''family'']"
  let ?c = "\<lparr>session_override = None, links = ?tbl, global_active = Some ''personal''\<rparr>"
  let ?o = "\<lparr>session_override = Some ''scratch'', links = ?tbl, global_active = Some ''personal''\<rparr>"
  have cl: "closest_linked ?tbl [''home'', ''me'', ''work'', ''src''] [''home'', ''me'', ''work'']"
    by (auto simp: closest_linked_def prefix_Cons)
  have none: "\<forall>p. prefix p [''srv''] \<longrightarrow> ?tbl p = None"
    by (auto simp: prefix_Cons)
  from resolve_precedence [of ?c "[''home'', ''me'', ''work'', ''src'']"] cl
  have a: "resolve ?c [''home'', ''me'', ''work'', ''src''] = Some ''work''" by simp
  from resolve_precedence [of ?o "[''home'', ''me'', ''work'', ''src'']"]
  have b: "resolve ?o [''home'', ''me'', ''work'', ''src''] = Some ''scratch''" by simp
  from resolve_precedence [of ?c "[''srv'']"] none
  have c: "resolve ?c [''srv''] = Some ''personal''" by simp
  from cl a b c show ?thesis by simp
qed

end
